theory Spec2Isabelle
  imports Complex_Main "HOL-Library.Word"
begin

section \<open>Client bindings of the pool program: secondary\_bindings.ts\<close>

text \<open>
  The module talks to a chain over an RPC connection. Every answer of the connection is an
  input of the model; every \<^verbatim>\<open>throw\<close> of the source is an \<open>Inl\<close> of the result.
  JavaScript numbers are modelled as \<open>real\<close> where the source divides them (rounding of
  IEEE doubles is not modelled) and as \<open>nat\<close>/\<open>int\<close> where they are counts or indices.
\<close>

subsection \<open>Data\<close>

type_synonym byte = "8 word"
type_synonym bytes = "byte list"

text \<open>A public key is its 32 bytes; two keys are equal when their bytes are.\<close>

type_synonym pubkey = bytes

datatype error =
    PoolUnavailable          \<comment> \<open>\<^verbatim>\<open>throw 'Pool account is unavailable'\<close>\<close>
  | SourceUnavailable        \<comment> \<open>\<^verbatim>\<open>throw 'Source asset account is unavailable'\<close>\<close>
  | MarketDeprecated         \<comment> \<open>\<^verbatim>\<open>throw 'Chosen Market is deprecated'\<close>\<close>
  | ConversionNotMatched     \<comment> \<open>\<^verbatim>\<open>throw 'Conversion to USDC Order was not matched.'\<close>\<close>
  | TypeError                \<comment> \<open>a property read on \<^verbatim>\<open>undefined\<close>\<close>
  | DecodingError            \<comment> \<open>raised by a decoder of state.ts or utils.ts\<close>
  | RpcError string          \<comment> \<open>\<^verbatim>\<open>throw new Error(resp.error.message)\<close>, or a failed request\<close>
  | LibraryError string      \<comment> \<open>an \<^verbatim>\<open>Error\<close> raised inside an imported library\<close>

text \<open>\<^verbatim>\<open>Buffer.slice(start, end)\<close> and \<^verbatim>\<open>Buffer.slice(start)\<close> for indices that are not
  negative: both ends are clamped to the length, nothing is raised.\<close>

definition buf_slice :: "nat \<Rightarrow> nat \<Rightarrow> 'a list \<Rightarrow> 'a list" where
  "buf_slice start end xs = drop start (take end xs)"

definition slice_from :: "nat \<Rightarrow> 'a list \<Rightarrow> 'a list" where
  "slice_from start xs = drop start xs"

text \<open>\<^verbatim>\<open>arr[i]\<close>: the element, or \<^verbatim>\<open>undefined\<close> (here \<open>None\<close>) out of range.\<close>

definition at_index :: "'a list \<Rightarrow> nat \<Rightarrow> 'a option" where
  "at_index xs i = (if i < length xs then Some (xs ! i) else None)"

subsection \<open>singleTokenDeposit: converting the source token (lines 283--376)\<close>

record token_mint =
  tm_address :: pubkey
  tm_name :: string

record market_info =
  mk_name :: string
  mk_address :: pubkey
  mk_deprecated :: bool

record placeOrderParams =
  po_payer :: pubkey
  po_side :: string
  po_price :: real
  po_size :: real
  po_orderType :: string

text \<open>\<^verbatim>\<open>TOKEN_MINTS[TOKEN_MINTS.map(t => t.address.toString()).indexOf(mint.toString())].name\<close>:
  the first entry with that address; with none, \<^verbatim>\<open>indexOf\<close> is -1, the entry is
  \<^verbatim>\<open>undefined\<close> and reading \<^verbatim>\<open>.name\<close> raises.\<close>

definition tokenSymbolOf :: "token_mint list \<Rightarrow> pubkey \<Rightarrow> error + string" where
  "tokenSymbolOf TOKEN_MINTS mint =
     (case find (\<lambda>t. tm_address t = mint) TOKEN_MINTS of
        None \<Rightarrow> Inl TypeError
      | Some t \<Rightarrow> Inr (tm_name t))"

text \<open>\<^verbatim>\<open>MARKETS[MARKETS.map(m => m.name).lastIndexOf(pairSymbol)]\<close>: the last entry with
  that name; the source reads \<^verbatim>\<open>.deprecated\<close> of it at once, which raises on
  \<^verbatim>\<open>undefined\<close>.\<close>

definition marketInfoOf :: "market_info list \<Rightarrow> string \<Rightarrow> error + market_info" where
  "marketInfoOf MARKETS pairSymbol =
     (case find (\<lambda>m. mk_name m = pairSymbol) (rev MARKETS) of
        None \<Rightarrow> Inl TypeError
      | Some m \<Rightarrow> Inr m)"

text \<open>Lines 286--287: \<^verbatim>\<open>precision\<close> is the \<^verbatim>\<open>decimals\<close> field of the token balance.\<close>

definition orderAmount :: "nat \<Rightarrow> real \<Rightarrow> real" where
  "orderAmount precision user_amount = real precision * user_amount"

text \<open>The tables of the serum package and the venue's answer to \<^verbatim>\<open>getMidPrice\<close> for a
  market address (the market itself is identified by that address).\<close>

record venue =
  TOKEN_MINTS :: "token_mint list"
  MARKETS :: "market_info list"
  getMidPrice :: "pubkey \<Rightarrow> error + real"

text \<open>Lines 289--365. The result is the mid price used later and the order handed to
  \<^verbatim>\<open>marketUSDC.placeOrder\<close>, if one is placed.\<close>

definition convertSource ::
  "venue \<Rightarrow> pubkey \<Rightarrow> pubkey \<Rightarrow> nat \<Rightarrow> real \<Rightarrow> error + (real \<times> placeOrderParams option)" where
  "convertSource v sourceTokenKey tokenMint precision user_amount =
     (case tokenSymbolOf (TOKEN_MINTS v) tokenMint of
        Inl e \<Rightarrow> Inl e
      | Inr tokenSymbol \<Rightarrow>
          let amount = orderAmount precision user_amount in
          if tokenSymbol \<noteq> ''USDC'' then
            (case marketInfoOf (MARKETS v) (tokenSymbol @ ''/USDC'') of
               Inl e \<Rightarrow> Inl e
             | Inr usdcMarketInfo \<Rightarrow>
                 if mk_deprecated usdcMarketInfo then Inl MarketDeprecated
                 else
                   (case getMidPrice v (mk_address usdcMarketInfo) of
                      Inl e \<Rightarrow> Inl e
                    | Inr midPriceUSDC \<Rightarrow>
                        Inr (midPriceUSDC,
                             Some \<lparr> po_payer = sourceTokenKey, po_side = ''sell'',
                                    po_price = 0.95 * midPriceUSDC, po_size = amount,
                                    po_orderType = ''ioc'' \<rparr>)))
          else Inr (1, None))"

text \<open>JavaScript numbers where the source can leave the finite ones.\<close>

datatype js_number = Finite real | PosInfinity | NegInfinity | NaN

text \<open>The subtraction of two numbers.\<close>

fun js_minus :: "js_number \<Rightarrow> js_number \<Rightarrow> js_number" where
  "js_minus NaN y = NaN"
| "js_minus x NaN = NaN"
| "js_minus (Finite a) (Finite b) = Finite (a - b)"
| "js_minus (Finite a) PosInfinity = NegInfinity"
| "js_minus (Finite a) NegInfinity = PosInfinity"
| "js_minus PosInfinity PosInfinity = NaN"
| "js_minus PosInfinity y = PosInfinity"
| "js_minus NegInfinity NegInfinity = NaN"
| "js_minus NegInfinity y = NegInfinity"

text \<open>\<^verbatim>\<open>x > amount\<close> for a finite \<open>amount\<close>: every comparison with \<^verbatim>\<open>NaN\<close> is false.\<close>

fun js_greater :: "js_number \<Rightarrow> real \<Rightarrow> bool" where
  "js_greater (Finite a) amount \<longleftrightarrow> a > amount"
| "js_greater PosInfinity amount \<longleftrightarrow> True"
| "js_greater NegInfinity amount \<longleftrightarrow> False"
| "js_greater NaN amount \<longleftrightarrow> False"

text \<open>The \<^verbatim>\<open>amount\<close> field that \<^verbatim>\<open>AccountLayout.decode\<close> gives (lines 282 and 373) is no
  number but the 8 bytes of the balance, little-endian, as a Buffer; the annotation
  \<^verbatim>\<open>: number\<close> of line 282 is not checked, the decoder being untyped. As an operand of
  \<^verbatim>\<open>-\<close> a Buffer is converted through its string, the UTF-8 decoding of its bytes. A
  string that holds the character of code 0 is no numeric literal, so a Buffer with a zero
  byte converts to \<^verbatim>\<open>NaN\<close>; what the engine makes of the string of any other Buffer is the
  parameter \<open>stringToNumber\<close>.\<close>

definition bufferToNumber :: "(bytes \<Rightarrow> js_number) \<Rightarrow> bytes \<Rightarrow> js_number" where
  "bufferToNumber stringToNumber b = (if 0 \<in> set b then NaN else stringToNumber b)"

text \<open>Lines 367--376. \<open>tokenInitialBalance\<close> is the amount field read before the order,
  \<open>tokenInfo\<close> the one re-read after the order and the settlement, \<open>None\<close> when the
  account is gone.\<close>

definition verifyConversion ::
  "(bytes \<Rightarrow> js_number) \<Rightarrow> bytes \<Rightarrow> bytes option \<Rightarrow> real \<Rightarrow> error + unit" where
  "verifyConversion stringToNumber tokenInitialBalance tokenInfo amount =
     (case tokenInfo of
        None \<Rightarrow> Inl SourceUnavailable
      | Some tokenBalance \<Rightarrow>
          if js_greater
               (js_minus (bufferToNumber stringToNumber tokenInitialBalance)
                         (bufferToNumber stringToNumber tokenBalance))
               amount
          then Inl ConversionNotMatched
          else Inr ())"

subsection \<open>singleTokenDeposit: buying the pool assets (lines 414--491, 568--587)\<close>

record rebalance_state =
  poolAssetMarkets :: "pubkey option list"
  poolTokenAmount :: real
  placedOrders :: "(pubkey \<times> placeOrderParams) list"

text \<open>The loop of lines 431--491 over the pool assets, each with the pool's balance of it
  (\<^verbatim>\<open>poolAssetAmounts[i]\<close>). \<^verbatim>\<open>continue\<close> goes on with the state unchanged.\<close>

fun rebalanceLoop ::
  "venue \<Rightarrow> pubkey \<Rightarrow> real \<Rightarrow> real \<Rightarrow> real \<Rightarrow> (pubkey \<times> real) list \<Rightarrow>
   rebalance_state \<Rightarrow> error + rebalance_state" where
  "rebalanceLoop v sourceUSDCKey midPriceUSDC amount totalPoolAssetAmount [] st = Inr st"
| "rebalanceLoop v sourceUSDCKey midPriceUSDC amount totalPoolAssetAmount
     ((mintAddress, poolAssetAmount) # rest) st =
     (case tokenSymbolOf (TOKEN_MINTS v) mintAddress of
        Inl e \<Rightarrow> Inl e
      | Inr poolAssetSymbol \<Rightarrow>
          if poolAssetSymbol \<noteq> ''USDC'' then
            (case marketInfoOf (MARKETS v) (poolAssetSymbol @ ''/USDC'') of
               Inl e \<Rightarrow> Inl e
             | Inr assetMarketInfo \<Rightarrow>
                 if mk_deprecated assetMarketInfo then Inl MarketDeprecated
                 else if poolAssetAmount = 0 then
                   rebalanceLoop v sourceUSDCKey midPriceUSDC amount totalPoolAssetAmount rest st
                 else
                   (case getMidPrice v (mk_address assetMarketInfo) of
                      Inl e \<Rightarrow> Inl e
                    | Inr assetMidPrice \<Rightarrow>
                        let assetAmountToBuy =
                              (midPriceUSDC * amount * poolAssetAmount) /
                              (assetMidPrice * totalPoolAssetAmount)
                        in rebalanceLoop v sourceUSDCKey midPriceUSDC amount totalPoolAssetAmount rest
                             (st\<lparr> poolAssetMarkets :=
                                    poolAssetMarkets st @ [Some (mk_address assetMarketInfo)],
                                  poolTokenAmount :=
                                    max (poolTokenAmount st) (assetAmountToBuy / poolAssetAmount),
                                  placedOrders := placedOrders st @
                                    [(mk_address assetMarketInfo,
                                      \<lparr> po_payer = sourceUSDCKey, po_side = ''buy'',
                                        po_price = 1.05 * assetMidPrice,
                                        po_size = assetAmountToBuy,
                                        po_orderType = ''ioc'' \<rparr>)] \<rparr>)))
          else
            rebalanceLoop v sourceUSDCKey midPriceUSDC amount totalPoolAssetAmount rest
              (st\<lparr> poolAssetMarkets := poolAssetMarkets st @ [None],
                   poolTokenAmount :=
                     max (poolTokenAmount st)
                         ((1000000 * midPriceUSDC * amount) / totalPoolAssetAmount) \<rparr>))"

text \<open>Lines 416--430: the total of the pool's balances, then the loop from
  \<^verbatim>\<open>poolTokenAmount = 0\<close>.\<close>

definition rebalance ::
  "venue \<Rightarrow> pubkey \<Rightarrow> real \<Rightarrow> real \<Rightarrow> (pubkey \<times> real) list \<Rightarrow> error + rebalance_state" where
  "rebalance v sourceUSDCKey midPriceUSDC amount poolAssets =
     rebalanceLoop v sourceUSDCKey midPriceUSDC amount (sum_list (map snd poolAssets)) poolAssets
       \<lparr> poolAssetMarkets = [], poolTokenAmount = 0, placedOrders = [] \<rparr>"

text \<open>Lines 568 and 586: the pool-token amount of the deposit instruction,
  \<^verbatim>\<open>new Numberu64(1000000 * poolTokenAmount)\<close>. The class is of utils.ts, on top of the
  big-number library; its constructor from a number is the parameter \<open>Numberu64_new\<close>
  (it can raise).\<close>

definition depositPoolTokenAmount ::
  "(real \<Rightarrow> error + nat) \<Rightarrow> rebalance_state \<Rightarrow> error + nat" where
  "depositPoolTokenAmount Numberu64_new st = Numberu64_new (1000000 * poolTokenAmount st)"

text \<open>The per-leg ratios as the specification describes them: for a non-settlement asset
  with a nonzero pool balance the amount to buy over the pool's balance, for the
  settlement asset its own ratio. An asset the loop skips has none.\<close>

definition legRatio :: "venue \<Rightarrow> real \<Rightarrow> real \<Rightarrow> real \<Rightarrow> pubkey \<times> real \<Rightarrow> real option" where
  "legRatio v midPriceUSDC amount totalPoolAssetAmount leg =
     (case tokenSymbolOf (TOKEN_MINTS v) (fst leg) of
        Inl e \<Rightarrow> None
      | Inr symbol \<Rightarrow>
          if symbol = ''USDC'' then Some ((1000000 * midPriceUSDC * amount) / totalPoolAssetAmount)
          else if snd leg = 0 then None
          else
            (case marketInfoOf (MARKETS v) (symbol @ ''/USDC'') of
               Inl e \<Rightarrow> None
             | Inr m \<Rightarrow>
                 (case getMidPrice v (mk_address m) of
                    Inl e \<Rightarrow> None
                  | Inr assetMidPrice \<Rightarrow>
                      Some (((midPriceUSDC * amount * snd leg) / (assetMidPrice * totalPoolAssetAmount))
                            / snd leg))))"

definition legRatios :: "venue \<Rightarrow> real \<Rightarrow> real \<Rightarrow> (pubkey \<times> real) list \<Rightarrow> real list" where
  "legRatios v midPriceUSDC amount poolAssets =
     List.map_filter (legRatio v midPriceUSDC amount (sum_list (map snd poolAssets))) poolAssets"

subsection \<open>Pool state: what the module imports from state.ts, utils.ts and main.ts\<close>

datatype OrderSide = Bid | Ask
datatype OrderType = Limit | ImmediateOrCancel | PostOnly
datatype SelfTradeBehavior = DecrementTake | CancelProvide | AbortTransaction

text \<open>\<^verbatim>\<open>PoolStatus\<close> is an enum of state.ts; only its code is kept.\<close>

type_synonym PoolStatus = nat

record PoolHeader =
  hdr_serumProgramId :: pubkey
  hdr_seed :: bytes
  hdr_signalProvider :: pubkey
  hdr_status :: PoolStatus
  hdr_feeRatio :: nat
  hdr_feeCollectionPeriod :: nat
  hdr_numberOfMarkets :: nat

record PoolAsset =
  mintAddress :: pubkey

text \<open>The parts of the imports that secondary\_bindings.ts does not hold: the program identity of main.ts,
  the address derivation of the chain client (it raises for seeds that give no valid
  address), the header and asset layouts of state.ts, and
  \<^verbatim>\<open>Numberu64.fromBuffer(b).toNumber()\<close> and \<^verbatim>\<open>Numberu16.fromBuffer(b).toNumber()\<close>
  of utils.ts. They are parameters of everything below.\<close>

record deps =
  BONFIDABOT_PROGRAM_ID :: pubkey
  createProgramAddress :: "bytes list \<Rightarrow> pubkey \<Rightarrow> error + pubkey"
  PoolHeader_LEN :: nat
  PoolHeader_fromBuffer :: "bytes \<Rightarrow> error + PoolHeader"
  PoolAsset_LEN :: nat
  PoolAsset_fromBuffer :: "bytes \<Rightarrow> error + PoolAsset"
  Numberu64_toNumber :: "bytes \<Rightarrow> error + nat"
  Numberu16_toNumber :: "bytes \<Rightarrow> error + nat"

text \<open>Modelled from the spec: \<^verbatim>\<open>PUBKEY_LENGTH\<close> of state.ts is not among the sources; the
  specification gives the market list as N records of 32 bytes.\<close>

definition PUBKEY_LENGTH :: nat where
  "PUBKEY_LENGTH = 32"

text \<open>Modelled from the spec: \<^verbatim>\<open>unpack_markets\<close> of state.ts is not among the sources. The
  specification: list decoding takes the element count carried in the header and reads
  that many fixed-size records sequentially; a market is a 32-byte address; a buffer
  shorter than required is a decoding error.\<close>

fun unpack_markets :: "bytes \<Rightarrow> nat \<Rightarrow> error + pubkey list" where
  "unpack_markets input 0 = Inr []"
| "unpack_markets input (Suc n) =
     (if length input < PUBKEY_LENGTH then Inl DecodingError
      else
        (case unpack_markets (drop PUBKEY_LENGTH input) n of
           Inl e \<Rightarrow> Inl e
         | Inr markets \<Rightarrow> Inr (take PUBKEY_LENGTH input # markets)))"

text \<open>Modelled from the spec: \<^verbatim>\<open>unpack_assets\<close> of state.ts is not among the sources. The
  specification: the asset list is a sequence of fixed-size records, read sequentially,
  each decoded by the asset layout; the source calls it with the rest of the account and
  no count, so the count is the number of records the buffer holds, and a buffer that is
  no whole number of records is a decoding error.\<close>

fun unpack_records :: "deps \<Rightarrow> bytes \<Rightarrow> nat \<Rightarrow> error + PoolAsset list" where
  "unpack_records d input 0 = Inr []"
| "unpack_records d input (Suc n) =
     (case PoolAsset_fromBuffer d (take (PoolAsset_LEN d) input) of
        Inl e \<Rightarrow> Inl e
      | Inr asset \<Rightarrow>
          (case unpack_records d (drop (PoolAsset_LEN d) input) n of
             Inl e \<Rightarrow> Inl e
           | Inr assets \<Rightarrow> Inr (asset # assets)))"

definition unpack_assets :: "deps \<Rightarrow> bytes \<Rightarrow> error + PoolAsset list" where
  "unpack_assets d input =
     (if PoolAsset_LEN d = 0 \<or> length input mod PoolAsset_LEN d \<noteq> 0 then Inl DecodingError
      else unpack_records d input (length input div PoolAsset_LEN d))"

subsection \<open>The connection\<close>

record ConfirmedSignatureInfo =
  signature :: string
  slot :: nat

record instruction =
  programId :: pubkey
  data :: bytes

record confirmed_transaction =
  instructions :: "instruction list"

text \<open>The answers of the RPC connection: a request can fail; an account or a transaction
  can be absent (\<^verbatim>\<open>null\<close>). \<open>getProgramAccounts\<close> gives the raw data of the accounts of
  a program, after the base64 decoding of line 625.\<close>

record connection =
  getAccountInfo :: "pubkey \<Rightarrow> error + bytes option"
  getConfirmedSignaturesForAddress2 :: "pubkey \<Rightarrow> error + ConfirmedSignatureInfo list"
  getConfirmedTransaction :: "string \<Rightarrow> error + confirmed_transaction option"
  getProgramAccounts :: "pubkey \<Rightarrow> error + bytes list"

subsection \<open>fetchPoolInfo (lines 129--178)\<close>

record PoolInfo =
  address :: pubkey
  serumProgramId :: pubkey
  seed :: bytes
  signalProvider :: pubkey
  status :: PoolStatus
  feeRatio :: nat
  feePeriod :: nat
  mintKey :: pubkey
  assetMintkeys :: "pubkey list"
  authorizedMarkets :: "pubkey list"

definition fetchPoolInfo :: "deps \<Rightarrow> connection \<Rightarrow> bytes \<Rightarrow> error + PoolInfo" where
  "fetchPoolInfo d conn poolSeed =
     (case createProgramAddress d [poolSeed] (BONFIDABOT_PROGRAM_ID d) of
        Inl e \<Rightarrow> Inl e
      | Inr poolKey \<Rightarrow>
     (case createProgramAddress d [poolSeed, [1]] (BONFIDABOT_PROGRAM_ID d) of
        Inl e \<Rightarrow> Inl e
      | Inr poolMintKey \<Rightarrow>
     (case getAccountInfo conn poolKey of
        Inl e \<Rightarrow> Inl e
      | Inr None \<Rightarrow> Inl PoolUnavailable
      | Inr (Some poolData) \<Rightarrow>
     (case PoolHeader_fromBuffer d (buf_slice 0 (PoolHeader_LEN d) poolData) of
        Inl e \<Rightarrow> Inl e
      | Inr poolHeader \<Rightarrow>
     (case unpack_assets d
             (slice_from (PoolHeader_LEN d + hdr_numberOfMarkets poolHeader * PUBKEY_LENGTH)
                poolData) of
        Inl e \<Rightarrow> Inl e
      | Inr poolAssets \<Rightarrow>
     (case unpack_markets
             (buf_slice (PoolHeader_LEN d)
                (PoolHeader_LEN d + hdr_numberOfMarkets poolHeader * PUBKEY_LENGTH) poolData)
             (hdr_numberOfMarkets poolHeader) of
        Inl e \<Rightarrow> Inl e
      | Inr markets \<Rightarrow>
          Inr \<lparr> address = poolKey,
                serumProgramId = hdr_serumProgramId poolHeader,
                seed = hdr_seed poolHeader,
                signalProvider = hdr_signalProvider poolHeader,
                status = hdr_status poolHeader,
                feeRatio = hdr_feeRatio poolHeader,
                feePeriod = hdr_feeCollectionPeriod poolHeader,
                mintKey = poolMintKey,
                assetMintkeys = map mintAddress poolAssets,
                authorizedMarkets = markets \<rparr>))))))"

subsection \<open>getPoolsSeedsBySigProvider (lines 606--637)\<close>

text \<open>The loop over the accounts of the response. The key comparison
  \<^verbatim>\<open>new PublicKey(data.slice(64, 96)).equals(signalProviderKey)\<close> is the equality of the
  32 bytes, which is what it is once the data has 96 bytes or more.\<close>

fun poolSeedsLoop :: "deps \<Rightarrow> pubkey option \<Rightarrow> bytes list \<Rightarrow> bytes list \<Rightarrow> bytes list" where
  "poolSeedsLoop d signalProviderKey [] poolSeeds = poolSeeds"
| "poolSeedsLoop d signalProviderKey (account # rest) poolSeeds =
     (if length account < PoolHeader_LEN d then
        poolSeedsLoop d signalProviderKey rest poolSeeds
      else if signalProviderKey = None \<or> Some (buf_slice 64 96 account) = signalProviderKey then
        poolSeedsLoop d signalProviderKey rest (poolSeeds @ [buf_slice 32 64 account])
      else poolSeedsLoop d signalProviderKey rest poolSeeds)"

definition getPoolsSeedsBySigProvider ::
  "deps \<Rightarrow> connection \<Rightarrow> pubkey option \<Rightarrow> error + bytes list" where
  "getPoolsSeedsBySigProvider d conn signalProviderKey =
     (case getProgramAccounts conn (BONFIDABOT_PROGRAM_ID d) of
        Inl e \<Rightarrow> Inl e
      | Inr accounts \<Rightarrow> Inr (poolSeedsLoop d signalProviderKey accounts []))"

subsection \<open>Order history (lines 652--722)\<close>

record PoolOrderInfo =
  poolSeed :: bytes
  side :: "OrderSide option"
  limitPrice :: nat
  ratioOfPoolAssetsToTrade :: nat
  orderType :: "OrderType option"
  clientOrderId :: nat
  selfTradeBehavior :: "SelfTradeBehavior option"
  market :: "pubkey option"
  transactionSignature :: string
  transactionSlot :: nat

text \<open>\<^verbatim>\<open>[A, B, C][data[k]]\<close>: \<^verbatim>\<open>data[k]\<close> is a byte or \<^verbatim>\<open>undefined\<close>, and indexing the
  table with a value that is no index of it is \<^verbatim>\<open>undefined\<close>. Nothing is raised.\<close>

definition table_lookup :: "'a list \<Rightarrow> byte option \<Rightarrow> 'a option" where
  "table_lookup table b = (case b of None \<Rightarrow> None | Some c \<Rightarrow> at_index table (unat c))"

text \<open>The fields are evaluated in the order of the object literal, so the first decoder
  that raises decides the error.\<close>

definition parseCreateOrderInstruction ::
  "deps \<Rightarrow> bytes \<Rightarrow> PoolInfo \<Rightarrow> ConfirmedSignatureInfo \<Rightarrow> error + PoolOrderInfo" where
  "parseCreateOrderInstruction d dat poolInfo sig =
     (case Numberu64_toNumber d (buf_slice 34 42 dat) of
        Inl e \<Rightarrow> Inl e
      | Inr price \<Rightarrow>
     (case Numberu16_toNumber d (buf_slice 42 44 dat) of
        Inl e \<Rightarrow> Inl e
      | Inr ratio \<Rightarrow>
     (case Numberu64_toNumber d (buf_slice 45 53 dat) of
        Inl e \<Rightarrow> Inl e
      | Inr clientId \<Rightarrow>
     (case Numberu16_toNumber d (buf_slice 70 72 dat) of
        Inl e \<Rightarrow> Inl e
      | Inr marketIndex \<Rightarrow>
          Inr \<lparr> poolSeed = buf_slice 1 33 dat,
                side = table_lookup [Bid, Ask] (at_index dat 33),
                limitPrice = price,
                ratioOfPoolAssetsToTrade = ratio,
                orderType = table_lookup [Limit, ImmediateOrCancel, PostOnly] (at_index dat 44),
                clientOrderId = clientId,
                selfTradeBehavior =
                  table_lookup [DecrementTake, CancelProvide, AbortTransaction] (at_index dat 53),
                market = at_index (authorizedMarkets poolInfo) marketIndex,
                transactionSignature = signature sig,
                transactionSlot = slot sig \<rparr>))))"

text \<open>The test of line 690.\<close>

definition isCreateOrder :: "deps \<Rightarrow> instruction \<Rightarrow> bool" where
  "isCreateOrder d i \<longleftrightarrow> programId i = BONFIDABOT_PROGRAM_ID d \<and> at_index (data i) 0 = Some 3"

text \<open>The \<^verbatim>\<open>map\<close> of lines 689--693: an instruction that passes the test is parsed, any
  other gives \<^verbatim>\<open>undefined\<close>; a parse that raises ends the call.\<close>

fun parseInstructions ::
  "deps \<Rightarrow> PoolInfo \<Rightarrow> ConfirmedSignatureInfo \<Rightarrow> instruction list \<Rightarrow>
   error + PoolOrderInfo option list" where
  "parseInstructions d poolInfo sig [] = Inr []"
| "parseInstructions d poolInfo sig (i # rest) =
     (case (if isCreateOrder d i then
              (case parseCreateOrderInstruction d (data i) poolInfo sig of
                 Inl e \<Rightarrow> Inl e
               | Inr info \<Rightarrow> Inr (Some info))
            else Inr None) of
        Inl e \<Rightarrow> Inl e
      | Inr x \<Rightarrow>
          (case parseInstructions d poolInfo sig rest of
             Inl e \<Rightarrow> Inl e
           | Inr xs \<Rightarrow> Inr (x # xs)))"

text \<open>\<^verbatim>\<open>.filter(o => o)\<close> drops the \<^verbatim>\<open>undefined\<close> entries; every parsed order is an
  object, hence kept.\<close>

definition filter_defined :: "'a option list \<Rightarrow> 'a list" where
  "filter_defined xs = List.map_filter (\<lambda>x. x) xs"

definition getPoolOrdersInfosFromSignature ::
  "deps \<Rightarrow> connection \<Rightarrow> PoolInfo \<Rightarrow> ConfirmedSignatureInfo \<Rightarrow>
   error + PoolOrderInfo list option" where
  "getPoolOrdersInfosFromSignature d conn poolInfo sig =
     (case getConfirmedTransaction conn (signature sig) of
        Inl e \<Rightarrow> Inl e
      | Inr None \<Rightarrow> Inr None
      | Inr (Some t) \<Rightarrow>
          (case parseInstructions d poolInfo sig (instructions t) of
             Inl e \<Rightarrow> Inl e
           | Inr x \<Rightarrow> Inr (Some (filter_defined x))))"

text \<open>\<^verbatim>\<open>Promise.all\<close>: all the results in the order of the inputs, or an error when one
  of them fails (here the first in that order).\<close>

fun promise_all :: "(error + 'a) list \<Rightarrow> error + 'a list" where
  "promise_all [] = Inr []"
| "promise_all (p # ps) =
     (case p of
        Inl e \<Rightarrow> Inl e
      | Inr x \<Rightarrow> (case promise_all ps of Inl e \<Rightarrow> Inl e | Inr xs \<Rightarrow> Inr (x # xs)))"

text \<open>\<^verbatim>\<open>infos.slice(0, n)\<close> for an integer \<open>n\<close>: a negative end counts from the end of the
  array.\<close>

definition slice_to :: "int \<Rightarrow> 'a list \<Rightarrow> 'a list" where
  "slice_to n xs = (if n < 0 then take (nat (int (length xs) + n)) xs else take (nat n) xs)"

definition getPoolOrderInfos ::
  "deps \<Rightarrow> connection \<Rightarrow> bytes \<Rightarrow> int \<Rightarrow> error + PoolOrderInfo list" where
  "getPoolOrderInfos d conn pool_seed n =
     (case fetchPoolInfo d conn pool_seed of
        Inl e \<Rightarrow> Inl e
      | Inr poolInfo \<Rightarrow>
     (case getConfirmedSignaturesForAddress2 conn (address poolInfo) of
        Inl e \<Rightarrow> Inl e
      | Inr confirmedsignatures \<Rightarrow>
     (case promise_all
             (map (getPoolOrdersInfosFromSignature d conn poolInfo) confirmedsignatures) of
        Inl e \<Rightarrow> Inl e
      | Inr results \<Rightarrow> Inr (slice_to n (concat (filter_defined results))))))"

subsection \<open>The layout and the window, in the specification's words\<close>

text \<open>The \<open>i\<close>-th 32-byte market address of the raw account: the market region starts at
  the end of the header.\<close>

definition market_record :: "deps \<Rightarrow> bytes \<Rightarrow> nat \<Rightarrow> bytes" where
  "market_record d poolData i =
     buf_slice (PoolHeader_LEN d + i * 32) (PoolHeader_LEN d + (i + 1) * 32) poolData"

text \<open>The \<open>j\<close>-th fixed-size asset record of the raw account: the asset region starts after
  \<open>numberOfMarkets\<close> records of 32 bytes.\<close>

definition asset_record :: "deps \<Rightarrow> nat \<Rightarrow> bytes \<Rightarrow> nat \<Rightarrow> bytes" where
  "asset_record d numberOfMarkets poolData j =
     buf_slice (PoolHeader_LEN d + numberOfMarkets * 32 + j * PoolAsset_LEN d)
       (PoolHeader_LEN d + numberOfMarkets * 32 + (j + 1) * PoolAsset_LEN d) poolData"

text \<open>The qualifying instructions of the window: for every signature the connection lists,
  in that order, the instructions of its transaction (if it is found) that are addressed
  to the program and start with the opcode 3, each with its signature.\<close>

definition qualifyingInstructions ::
  "deps \<Rightarrow> connection \<Rightarrow> ConfirmedSignatureInfo list \<Rightarrow>
   (ConfirmedSignatureInfo \<times> instruction) list" where
  "qualifyingInstructions d conn sigs =
     concat (map (\<lambda>s. case getConfirmedTransaction conn (signature s) of
                          Inr (Some t) \<Rightarrow>
                            map (Pair s) (filter (isCreateOrder d) (instructions t))
                        | _ \<Rightarrow> []) sigs)"

definition parsedAs ::
  "deps \<Rightarrow> PoolInfo \<Rightarrow> ConfirmedSignatureInfo \<times> instruction \<Rightarrow> PoolOrderInfo \<Rightarrow> bool" where
  "parsedAs d poolInfo si info \<longleftrightarrow>
     parseCreateOrderInstruction d (data (snd si)) poolInfo (fst si) = Inr info"

subsection \<open>Sample inputs\<close>

text \<open>Concrete inputs on which the theorems below are evaluated: keys of 32 equal bytes, a
  token table with two traded tokens and the settlement asset, and a market table in which
  the first SRM/USDC entry is deprecated and a later one is not.\<close>

definition key_of :: "byte \<Rightarrow> pubkey" where
  "key_of b = replicate 32 b"

definition sample_venue :: venue where
  "sample_venue =
     \<lparr> TOKEN_MINTS =
         [\<lparr> tm_address = key_of 1, tm_name = ''SRM'' \<rparr>,
          \<lparr> tm_address = key_of 2, tm_name = ''BTC'' \<rparr>,
          \<lparr> tm_address = key_of 3, tm_name = ''USDC'' \<rparr>],
       MARKETS =
         [\<lparr> mk_name = ''SRM/USDC'', mk_address = key_of 11, mk_deprecated = True \<rparr>,
          \<lparr> mk_name = ''BTC/USDC'', mk_address = key_of 12, mk_deprecated = False \<rparr>,
          \<lparr> mk_name = ''SRM/USDC'', mk_address = key_of 13, mk_deprecated = False \<rparr>],
       getMidPrice =
         (\<lambda>a. if a = key_of 13 then Inr 2
              else if a = key_of 12 then Inr 4
              else Inl (RpcError ''no such market'')) \<rparr>"

text \<open>A sample instance of the imported parts: little-endian numbers as on chain, a header
  of 109 bytes (program id, seed, signal provider, status, market count, fee ratio, fee
  period), asset records of 32 bytes, and an address derivation that always succeeds.\<close>

fun le_nat :: "bytes \<Rightarrow> nat" where
  "le_nat [] = 0"
| "le_nat (b # bs) = unat b + 256 * le_nat bs"

definition sample_deps :: deps where
  "sample_deps =
     \<lparr> BONFIDABOT_PROGRAM_ID = key_of 77,
       createProgramAddress =
         (\<lambda>seeds pid. Inr (map (\<lambda>b. b + of_nat (length seeds)) (take 32 (concat seeds @ pid)))),
       PoolHeader_LEN = 109,
       PoolHeader_fromBuffer =
         (\<lambda>b. if length b < 109 then Inl DecodingError
              else Inr \<lparr> hdr_serumProgramId = buf_slice 0 32 b, hdr_seed = buf_slice 32 64 b,
                         hdr_signalProvider = buf_slice 64 96 b, hdr_status = unat (b ! 96),
                         hdr_feeRatio = le_nat (buf_slice 99 101 b),
                         hdr_feeCollectionPeriod = le_nat (buf_slice 101 109 b),
                         hdr_numberOfMarkets = le_nat (buf_slice 97 99 b) \<rparr>),
       PoolAsset_LEN = 32,
       PoolAsset_fromBuffer =
         (\<lambda>b. if length b = 32 then Inr \<lparr> mintAddress = b \<rparr> else Inl DecodingError),
       Numberu64_toNumber =
         (\<lambda>b. if length b = 8 \<and> le_nat b < 2 ^ 53 then Inr (le_nat b) else Inl DecodingError),
       Numberu16_toNumber =
         (\<lambda>b. if length b = 2 then Inr (le_nat b) else Inl DecodingError) \<rparr>"

text \<open>An order-creation instruction of 72 bytes for the pool of seed \<open>key_of 5\<close>: price 100,
  ratio 50, client order id 7, and the four bytes given.\<close>

definition sample_order_data :: "byte \<Rightarrow> byte \<Rightarrow> byte \<Rightarrow> byte \<Rightarrow> bytes" where
  "sample_order_data side_byte type_byte self_trade_byte market_index =
     3 # replicate 32 5 @ side_byte # [100, 0, 0, 0, 0, 0, 0, 0] @ [50, 0] @ type_byte #
     [7, 0, 0, 0, 0, 0, 0, 0] @ self_trade_byte # replicate 16 0 @ [market_index, 0]"

text \<open>A pool account with two markets and one asset (fee ratio 50, fee period 86400), a
  second pool of another signal provider with neither, and the pool's decoded view.\<close>

definition sample_pool_data :: bytes where
  "sample_pool_data =
     key_of 66 @ key_of 5 @ key_of 4 @ [1, 2, 0, 50, 0, 128, 81, 1, 0, 0, 0, 0, 0]
     @ key_of 12 @ key_of 13 @ key_of 1"

definition sample_other_pool :: bytes where
  "sample_other_pool =
     key_of 66 @ key_of 55 @ key_of 44 @ [1, 0, 0, 10, 0, 60, 0, 0, 0, 0, 0, 0, 0]"

definition sample_poolInfo :: PoolInfo where
  "sample_poolInfo =
     \<lparr> address = key_of 6, serumProgramId = key_of 66, seed = key_of 5,
       signalProvider = key_of 4, status = 1, feeRatio = 50, feePeriod = 86400,
       mintKey = key_of 7, assetMintkeys = [key_of 1],
       authorizedMarkets = [key_of 12, key_of 13] \<rparr>"

definition sample_sig :: ConfirmedSignatureInfo where
  "sample_sig = \<lparr> signature = ''sig1'', slot = 42 \<rparr>"

text \<open>A connection that knows the pool, three signatures for it (the transaction of the
  second is not found) and the accounts of the program; the first transaction holds an
  order, an instruction with another opcode and an order sent to another program.\<close>

definition sample_conn :: connection where
  "sample_conn =
     \<lparr> getAccountInfo = (\<lambda>k. if k = key_of 6 then Inr (Some sample_pool_data) else Inr None),
       getConfirmedSignaturesForAddress2 =
         (\<lambda>k. if k = key_of 6
              then Inr [sample_sig, \<lparr> signature = ''sig2'', slot = 41 \<rparr>,
                        \<lparr> signature = ''sig3'', slot = 40 \<rparr>]
              else Inr []),
       getConfirmedTransaction =
         (\<lambda>s. if s = ''sig1'' then
                Inr (Some \<lparr> instructions =
                  [\<lparr> programId = key_of 77, data = sample_order_data 0 1 2 1 \<rparr>,
                   \<lparr> programId = key_of 77, data = 4 # replicate 71 0 \<rparr>,
                   \<lparr> programId = key_of 78, data = sample_order_data 1 0 0 0 \<rparr>] \<rparr>)
              else if s = ''sig3'' then
                Inr (Some \<lparr> instructions =
                  [\<lparr> programId = key_of 77, data = sample_order_data 1 2 0 0 \<rparr>] \<rparr>)
              else Inr None),
       getProgramAccounts =
         (\<lambda>p. if p = key_of 77 then Inr [sample_pool_data, replicate 40 0, sample_other_pool]
              else Inr []) \<rparr>"

text \<open>A sample of the constructor of \<^verbatim>\<open>Numberu64\<close> from a number that is not negative:
  the big-number library keeps the integer part of a number below \<open>2 ^ 53\<close> and fails
  an assertion from there on.\<close>

definition sample_Numberu64_new :: "real \<Rightarrow> error + nat" where
  "sample_Numberu64_new x =
     (if 0 \<le> x \<and> x < 2 ^ 53 then Inr (nat \<lfloor>x\<rfloor>) else Inl (LibraryError ''Assertion failed''))"

text \<open>The sample instance with an address derivation that accepts a single seed and
  rejects the two seeds of the pool-token mint key.\<close>

definition sample_deps_mint_rejected :: deps where
  "sample_deps_mint_rejected =
     sample_deps \<lparr> createProgramAddress :=
       (\<lambda>seeds pid.
          if length seeds = 1 then createProgramAddress sample_deps seeds pid
          else Inl (LibraryError ''Invalid seeds, address must fall off the curve'')) \<rparr>"

section \<open>Properties\<close>

lemma key_of_eq [simp]: "key_of a = key_of b \<longleftrightarrow> a = b"
  by (simp add: key_of_def)

subsection \<open>The conversion check\<close>

lemma verifyConversion_zero_byte:
  assumes "0 \<in> set b0 \<or> 0 \<in> set b1"
  shows "verifyConversion stringToNumber b0 (Some b1) amount = Inr ()"
proof -
  have "bufferToNumber stringToNumber b0 = NaN \<or> bufferToNumber stringToNumber b1 = NaN"
    using assms by (auto simp: bufferToNumber_def)
  then have "js_minus (bufferToNumber stringToNumber b0) (bufferToNumber stringToNumber b1) = NaN"
    by (cases "bufferToNumber stringToNumber b0") auto
  then show ?thesis
    by (simp add: verifyConversion_def)
qed

text \<open>The 8-byte encoding of a balance below \<open>2 ^ 56\<close> ends with a zero byte, so the
  check never raises for such a balance.\<close>

lemma le_nat_zero_byte:
  assumes "length b = 8" and "le_nat b < 2 ^ 56"
  shows "0 \<in> set b"
proof -
  from assms(1) obtain b0 b1 b2 b3 b4 b5 b6 b7 where b: "b = [b0, b1, b2, b3, b4, b5, b6, b7]"
    by (auto simp: numeral_eq_Suc length_Suc_conv)
  from assms(2) have "unat b7 = 0"
    unfolding b by simp
  then have "b7 = 0"
    by (simp add: unat_eq_0)
  then show ?thesis
    by (simp add: b)
qed

lemma verifyConversion_never_raises:
  assumes "length b0 = 8" and "le_nat b0 < 2 ^ 56"
  shows "verifyConversion stringToNumber b0 (Some b1) amount = Inr ()"
  using verifyConversion_zero_byte [of b0 b1] le_nat_zero_byte [OF assms] by simp

text \<open>
  C1. The conversion check is meant to fail exactly when the source balance fell by less
  than the intended amount. The source does not: the two balances it subtracts are the
  8-byte amount fields, the difference is \<^verbatim>\<open>NaN\<close> and nothing is raised. With the balance
  1000 before (bytes 232, 3, 0, ...) and 400 after the settlement (bytes 144, 1, 0, ...)
  a requested amount of 700 passes, where 600 < 700 should raise \<open>ConversionNotMatched\<close>;
  an order that was not matched at all (balance unchanged, amount 500) passes too.
\<close>

theorem verifyConversion_scenario:
  "le_nat [232, 3, 0, 0, 0, 0, 0, 0] = 1000 \<and> le_nat [144, 1, 0, 0, 0, 0, 0, 0] = 400
   \<and> verifyConversion stringToNumber [232, 3, 0, 0, 0, 0, 0, 0]
        (Some [144, 1, 0, 0, 0, 0, 0, 0]) 700 = Inr ()
   \<and> verifyConversion stringToNumber [232, 3, 0, 0, 0, 0, 0, 0]
        (Some [232, 3, 0, 0, 0, 0, 0, 0]) 500 = Inr ()"
  by (simp add: verifyConversion_def bufferToNumber_def)

subsection \<open>The conversion order\<close>

lemma convertSource_order:
  assumes "convertSource v sourceTokenKey tokenMint precision user_amount = Inr (mid, Some order)"
  shows "po_side order = ''sell'' \<and> po_orderType order = ''ioc''
         \<and> po_price order = 0.95 * mid \<and> po_size order = real precision * user_amount"
  using assms
  by (auto simp: convertSource_def orderAmount_def Let_def split: sum.splits if_splits)

text \<open>
  C4. When the source token is not the settlement asset, the order placed is an
  immediate-or-cancel sell at 0.95 times the mid price; its size should be the amount of
  source tokens the caller asked for. The source sizes it with \<^verbatim>\<open>precision * user_amount\<close>,
  where \<^verbatim>\<open>precision\<close> is the number of decimals of the token: for a token of 6 decimals,
  a requested amount of 10 and a mid price of 2 the order sells 60 at 1.9.
\<close>

theorem convertSource_sample_order:
  "convertSource sample_venue (key_of 9) (key_of 1) 6 10 =
     Inr (2, Some \<lparr> po_payer = key_of 9, po_side = ''sell'', po_price = 1.9, po_size = 60,
                    po_orderType = ''ioc'' \<rparr>)"
  by (simp add: convertSource_def sample_venue_def tokenSymbolOf_def marketInfoOf_def
      orderAmount_def)

subsection \<open>The pool-token amount of the deposit\<close>

lemma rebalanceLoop_foldl:
  "rebalanceLoop v k mp a t legs st = Inr st' \<Longrightarrow>
   poolTokenAmount st' = foldl max (poolTokenAmount st) (List.map_filter (legRatio v mp a t) legs)"
proof (induction legs arbitrary: st)
  case Nil
  then show ?case by (simp add: List.map_filter_simps)
next
  case (Cons leg legs)
  obtain m b where leg: "leg = (m, b)" by (cases leg)
  from Cons.prems Cons.IH show ?case
    unfolding leg
    by (auto simp: List.map_filter_simps legRatio_def Let_def split: sum.splits if_splits)
qed

lemma sample_legRatios:
  "legRatios sample_venue 1 800 [(key_of 1, 100), (key_of 2, 300)] = [1, 1 / 2]"
  by (simp add: legRatios_def legRatio_def List.map_filter_simps sample_venue_def
      tokenSymbolOf_def marketInfoOf_def)

lemma sample_rebalance:
  "rebalance sample_venue (key_of 9) 1 800 [(key_of 1, 100), (key_of 2, 300)] =
     Inr \<lparr> poolAssetMarkets = [Some (key_of 13), Some (key_of 12)],
           poolTokenAmount = 1,
           placedOrders =
             [(key_of 13, \<lparr> po_payer = key_of 9, po_side = ''buy'', po_price = 2.1,
                            po_size = 100, po_orderType = ''ioc'' \<rparr>),
              (key_of 12, \<lparr> po_payer = key_of 9, po_side = ''buy'', po_price = 4.2,
                            po_size = 150, po_orderType = ''ioc'' \<rparr>)] \<rparr>"
  by (simp add: rebalance_def sample_venue_def tokenSymbolOf_def marketInfoOf_def)

text \<open>
  C2, as stated: the pool-token amount of the deposit is no more than what the least-filled
  leg supports. It is not: with a pool of 100 SRM (mid price 2) and 300 BTC (mid price 4)
  and 800 to invest at a settlement price of 1, the legs give the ratios 1 and 1/2, and the
  amount is 1.
\<close>

theorem rebalance_exceeds_least_leg:
  "rebalance sample_venue (key_of 9) 1 800 [(key_of 1, 100), (key_of 2, 300)] =
     Inr \<lparr> poolAssetMarkets = [Some (key_of 13), Some (key_of 12)],
           poolTokenAmount = 1,
           placedOrders =
             [(key_of 13, \<lparr> po_payer = key_of 9, po_side = ''buy'', po_price = 2.1,
                            po_size = 100, po_orderType = ''ioc'' \<rparr>),
              (key_of 12, \<lparr> po_payer = key_of 9, po_side = ''buy'', po_price = 4.2,
                            po_size = 150, po_orderType = ''ioc'' \<rparr>)] \<rparr>
   \<and> legRatios sample_venue 1 800 [(key_of 1, 100), (key_of 2, 300)] = [1, 1 / 2]
   \<and> Min (set (legRatios sample_venue 1 800 [(key_of 1, 100), (key_of 2, 300)])) < 1"
  using sample_legRatios sample_rebalance by simp

lemma sample_rebalance_fraction:
  "rebalance sample_venue (key_of 9) 1 100 [(key_of 1, 100), (key_of 2, 200)] =
     Inr \<lparr> poolAssetMarkets = [Some (key_of 13), Some (key_of 12)],
           poolTokenAmount = 1 / 6,
           placedOrders =
             [(key_of 13, \<lparr> po_payer = key_of 9, po_side = ''buy'', po_price = 2.1,
                            po_size = 50 / 3, po_orderType = ''ioc'' \<rparr>),
              (key_of 12, \<lparr> po_payer = key_of 9, po_side = ''buy'', po_price = 4.2,
                            po_size = 50 / 3, po_orderType = ''ioc'' \<rparr>)] \<rparr>"
  by (simp add: rebalance_def sample_venue_def tokenSymbolOf_def marketInfoOf_def Let_def)

lemma sample_legRatios_fraction:
  "legRatios sample_venue 1 100 [(key_of 1, 100), (key_of 2, 200)] = [1 / 6, 1 / 12]"
  by (simp add: legRatios_def legRatio_def List.map_filter_simps sample_venue_def
      tokenSymbolOf_def marketInfoOf_def)

text \<open>
  C2, amended: provided the total of the pool's balances and every mid price are not zero
  (the divisors of the source), the amount the rebalance step computes is the maximum of 0
  and the per-leg ratios (the amount to buy over the pool's balance for each
  non-settlement asset with a nonzero pool balance, and the settlement asset's ratio), a
  maximum and not a sum, so it is at least every leg's ratio; the pool-token claim of the
  deposit is what the constructor of \<^verbatim>\<open>Numberu64\<close> makes of 1000000 times that maximum.
\<close>

theorem rebalance_poolTokenAmount_max:
  assumes "sum_list (map snd poolAssets) \<noteq> 0"
    and "\<forall>m p. getMidPrice v m = Inr p \<longrightarrow> p \<noteq> 0"
    and "rebalance v k midPriceUSDC amount poolAssets = Inr st"
  shows "poolTokenAmount st = Max (set (0 # legRatios v midPriceUSDC amount poolAssets))
       \<and> (\<forall>r \<in> set (legRatios v midPriceUSDC amount poolAssets). r \<le> poolTokenAmount st)
       \<and> depositPoolTokenAmount Numberu64_new st =
           Numberu64_new (1000000 * Max (set (0 # legRatios v midPriceUSDC amount poolAssets)))"
proof -
  have flip: "(\<lambda>x s. max s x) = (max :: real \<Rightarrow> real \<Rightarrow> real)"
    by (intro ext) (rule max.commute)
  have "poolTokenAmount st = foldl max 0 (legRatios v midPriceUSDC amount poolAssets)"
    using rebalanceLoop_foldl [OF assms(3) [unfolded rebalance_def]]
    by (simp add: legRatios_def)
  then have "poolTokenAmount st = fold max (legRatios v midPriceUSDC amount poolAssets) 0"
    by (simp add: foldl_conv_fold flip)
  then have eq: "poolTokenAmount st = Max (set (0 # legRatios v midPriceUSDC amount poolAssets))"
    by (simp only: Max.set_eq_fold)
  have "\<forall>r \<in> set (legRatios v midPriceUSDC amount poolAssets). r \<le> poolTokenAmount st"
    unfolding eq by (auto intro: Max_ge)
  with eq show ?thesis
    by (simp add: depositPoolTokenAmount_def)
qed

theorem rebalance_poolTokenAmount_max_witness:
  "sum_list (map snd [(key_of 1, 100 :: real), (key_of 2, 200)]) \<noteq> 0
   \<and> rebalance sample_venue (key_of 9) 1 100 [(key_of 1, 100), (key_of 2, 200)] =
       Inr \<lparr> poolAssetMarkets = [Some (key_of 13), Some (key_of 12)],
             poolTokenAmount = 1 / 6,
             placedOrders =
               [(key_of 13, \<lparr> po_payer = key_of 9, po_side = ''buy'', po_price = 2.1,
                              po_size = 50 / 3, po_orderType = ''ioc'' \<rparr>),
                (key_of 12, \<lparr> po_payer = key_of 9, po_side = ''buy'', po_price = 4.2,
                              po_size = 50 / 3, po_orderType = ''ioc'' \<rparr>)] \<rparr>
   \<and> Max (set (0 # legRatios sample_venue 1 100 [(key_of 1, 100), (key_of 2, 200)])) = 1 / 6
   \<and> depositPoolTokenAmount sample_Numberu64_new
       \<lparr> poolAssetMarkets = [Some (key_of 13), Some (key_of 12)],
         poolTokenAmount = 1 / 6,
         placedOrders =
           [(key_of 13, \<lparr> po_payer = key_of 9, po_side = ''buy'', po_price = 2.1,
                          po_size = 50 / 3, po_orderType = ''ioc'' \<rparr>),
            (key_of 12, \<lparr> po_payer = key_of 9, po_side = ''buy'', po_price = 4.2,
                          po_size = 50 / 3, po_orderType = ''ioc'' \<rparr>)] \<rparr> = Inr 166666"
proof -
  have a: "sum_list (map snd [(key_of 1, 100 :: real), (key_of 2, 200)]) \<noteq> 0"
    by simp
  have b: "\<forall>m p. getMidPrice sample_venue m = Inr p \<longrightarrow> p \<noteq> 0"
    by (simp add: sample_venue_def)
  note r = sample_rebalance_fraction
  have m: "Max (set (0 # legRatios sample_venue 1 100 [(key_of 1, 100), (key_of 2, 200)])) = 1 / 6"
    by (simp add: sample_legRatios_fraction)
  have n: "sample_Numberu64_new (1000000 * (1 / 6)) = Inr 166666"
    by (simp add: sample_Numberu64_new_def)
  from rebalance_poolTokenAmount_max [OF a b r, of sample_Numberu64_new]
  have "depositPoolTokenAmount sample_Numberu64_new
       \<lparr> poolAssetMarkets = [Some (key_of 13), Some (key_of 12)],
         poolTokenAmount = 1 / 6,
         placedOrders =
           [(key_of 13, \<lparr> po_payer = key_of 9, po_side = ''buy'', po_price = 2.1,
                          po_size = 50 / 3, po_orderType = ''ioc'' \<rparr>),
            (key_of 12, \<lparr> po_payer = key_of 9, po_side = ''buy'', po_price = 4.2,
                          po_size = 50 / 3, po_orderType = ''ioc'' \<rparr>)] \<rparr> =
      sample_Numberu64_new (1000000 *
        Max (set (0 # legRatios sample_venue 1 100 [(key_of 1, 100), (key_of 2, 200)])))"
    by blast
  then have d: "depositPoolTokenAmount sample_Numberu64_new
       \<lparr> poolAssetMarkets = [Some (key_of 13), Some (key_of 12)],
         poolTokenAmount = 1 / 6,
         placedOrders =
           [(key_of 13, \<lparr> po_payer = key_of 9, po_side = ''buy'', po_price = 2.1,
                          po_size = 50 / 3, po_orderType = ''ioc'' \<rparr>),
            (key_of 12, \<lparr> po_payer = key_of 9, po_side = ''buy'', po_price = 4.2,
                          po_size = 50 / 3, po_orderType = ''ioc'' \<rparr>)] \<rparr> = Inr 166666"
    unfolding m n .
  from a r m d show ?thesis
    by blast
qed

subsection \<open>Decoding an order-creation instruction\<close>

lemma replicate_step: "replicate (numeral k) b = b # replicate (numeral k - 1) b"
  by (simp add: numeral_eq_Suc)

lemmas sample_eval =
  parseCreateOrderInstruction_def sample_deps_def sample_order_data_def sample_poolInfo_def
  sample_sig_def buf_slice_def at_index_def table_lookup_def key_of_def replicate_step

lemma byte_cases:
  "unat (c :: byte) = 0 \<longleftrightarrow> c = 0" "unat c = Suc 0 \<longleftrightarrow> c = 1" "unat c = 2 \<longleftrightarrow> c = 2"
  by (simp_all add: word_unat_eq_iff)

lemma table_lookup2:
  "table_lookup [a, b] x = (if x = Some 0 then Some a else if x = Some 1 then Some b else None)"
proof (cases x)
  case None
  then show ?thesis by (simp add: table_lookup_def)
next
  case (Some c)
  have "unat c = 0 \<or> unat c = 1 \<or> 2 \<le> unat c" by arith
  then show ?thesis
    using byte_cases [of c] by (auto simp: Some table_lookup_def at_index_def)
qed

lemma table_lookup3:
  "table_lookup [a, b, c] x =
    (if x = Some 0 then Some a else if x = Some 1 then Some b else if x = Some 2 then Some c else None)"
proof (cases x)
  case None
  then show ?thesis by (simp add: table_lookup_def)
next
  case (Some w)
  have "unat w = 0 \<or> unat w = 1 \<or> unat w = 2 \<or> 3 \<le> unat w" by arith
  then show ?thesis
    using byte_cases [of w] by (auto simp: Some table_lookup_def at_index_def)
qed

lemma parse_returns:
  assumes "Numberu64_toNumber d (buf_slice 34 42 dat) = Inr price"
    and "Numberu16_toNumber d (buf_slice 42 44 dat) = Inr ratio"
    and "Numberu64_toNumber d (buf_slice 45 53 dat) = Inr clientId"
    and "Numberu16_toNumber d (buf_slice 70 72 dat) = Inr marketIndex"
  shows "parseCreateOrderInstruction d dat poolInfo sig =
          Inr \<lparr> poolSeed = buf_slice 1 33 dat,
                side = table_lookup [Bid, Ask] (at_index dat 33),
                limitPrice = price,
                ratioOfPoolAssetsToTrade = ratio,
                orderType = table_lookup [Limit, ImmediateOrCancel, PostOnly] (at_index dat 44),
                clientOrderId = clientId,
                selfTradeBehavior =
                  table_lookup [DecrementTake, CancelProvide, AbortTransaction] (at_index dat 53),
                market = at_index (authorizedMarkets poolInfo) marketIndex,
                transactionSignature = signature sig,
                transactionSlot = slot sig \<rparr>"
  using assms by (simp add: parseCreateOrderInstruction_def)

text \<open>
  C3, as stated: a side, order-type or self-trade byte outside its table is a decoding
  error. It is not: the instruction with side byte 2, order-type byte 3 and self-trade byte
  200 decodes, and the three fields are undefined.
\<close>

theorem parseCreateOrderInstruction_out_of_range:
  "parseCreateOrderInstruction sample_deps (sample_order_data 2 3 200 1) sample_poolInfo
     sample_sig =
   Inr \<lparr> poolSeed = key_of 5, side = None, limitPrice = 100, ratioOfPoolAssetsToTrade = 50,
         orderType = None, clientOrderId = 7, selfTradeBehavior = None,
         market = Some (key_of 13), transactionSignature = ''sig1'', transactionSlot = 42 \<rparr>"
  by (simp add: sample_eval)

text \<open>
  C3, amended: the side byte (offset 33), the order-type byte (offset 44) and the
  self-trade byte (offset 53) are mapped through fixed tables indexed by the byte value:
  0 and 1 to Bid and Ask; 0, 1 and 2 to Limit, ImmediateOrCancel and PostOnly; 0, 1 and 2
  to DecrementTake, CancelProvide and AbortTransaction. A byte outside the table, or
  missing, raises nothing: whenever the four numeric fields decode, the instruction
  decodes, with that field undefined.
\<close>

theorem parseCreateOrderInstruction_lookup_tables:
  assumes "Numberu64_toNumber d (buf_slice 34 42 dat) = Inr price"
    and "Numberu16_toNumber d (buf_slice 42 44 dat) = Inr ratio"
    and "Numberu64_toNumber d (buf_slice 45 53 dat) = Inr clientId"
    and "Numberu16_toNumber d (buf_slice 70 72 dat) = Inr marketIndex"
  shows "\<exists>info. parseCreateOrderInstruction d dat poolInfo sig = Inr info
    \<and> side info =
        (if at_index dat 33 = Some 0 then Some Bid
         else if at_index dat 33 = Some 1 then Some Ask else None)
    \<and> orderType info =
        (if at_index dat 44 = Some 0 then Some Limit
         else if at_index dat 44 = Some 1 then Some ImmediateOrCancel
         else if at_index dat 44 = Some 2 then Some PostOnly else None)
    \<and> selfTradeBehavior info =
        (if at_index dat 53 = Some 0 then Some DecrementTake
         else if at_index dat 53 = Some 1 then Some CancelProvide
         else if at_index dat 53 = Some 2 then Some AbortTransaction else None)"
  unfolding parse_returns [OF assms] table_lookup2 table_lookup3 by simp

theorem parseCreateOrderInstruction_lookup_tables_witness:
  "Numberu64_toNumber sample_deps (buf_slice 34 42 (sample_order_data 1 9 2 0)) = Inr 100
   \<and> Numberu16_toNumber sample_deps (buf_slice 42 44 (sample_order_data 1 9 2 0)) = Inr 50
   \<and> Numberu64_toNumber sample_deps (buf_slice 45 53 (sample_order_data 1 9 2 0)) = Inr 7
   \<and> Numberu16_toNumber sample_deps (buf_slice 70 72 (sample_order_data 1 9 2 0)) = Inr 0
   \<and> (\<exists>info. parseCreateOrderInstruction sample_deps (sample_order_data 1 9 2 0)
                 sample_poolInfo sample_sig = Inr info
         \<and> side info = Some Ask \<and> orderType info = None
         \<and> selfTradeBehavior info = Some AbortTransaction)"
proof -
  have a: "Numberu64_toNumber sample_deps (buf_slice 34 42 (sample_order_data 1 9 2 0)) = Inr 100"
    by (simp add: sample_eval)
  have b: "Numberu16_toNumber sample_deps (buf_slice 42 44 (sample_order_data 1 9 2 0)) = Inr 50"
    by (simp add: sample_eval)
  have c: "Numberu64_toNumber sample_deps (buf_slice 45 53 (sample_order_data 1 9 2 0)) = Inr 7"
    by (simp add: sample_eval)
  have e: "Numberu16_toNumber sample_deps (buf_slice 70 72 (sample_order_data 1 9 2 0)) = Inr 0"
    by (simp add: sample_eval)
  have bytes: "at_index (sample_order_data 1 9 2 0) 33 = Some 1"
    "at_index (sample_order_data 1 9 2 0) 44 = Some 9"
    "at_index (sample_order_data 1 9 2 0) 53 = Some 2"
    by (simp_all add: sample_eval)
  from parseCreateOrderInstruction_lookup_tables [OF a b c e, of sample_poolInfo sample_sig]
  show ?thesis
    unfolding bytes using a b c e by simp
qed

text \<open>
  C10. The market of an order is the entry of the pool's authorized markets at the index
  read from bytes 70--72 of the instruction; when the index is not below the length of
  the list, the order is still returned, with no market, and nothing is raised.
\<close>

theorem parseCreateOrderInstruction_market:
  assumes "Numberu64_toNumber d (buf_slice 34 42 dat) = Inr price"
    and "Numberu16_toNumber d (buf_slice 42 44 dat) = Inr ratio"
    and "Numberu64_toNumber d (buf_slice 45 53 dat) = Inr clientId"
    and "Numberu16_toNumber d (buf_slice 70 72 dat) = Inr marketIndex"
  shows "\<exists>info. parseCreateOrderInstruction d dat poolInfo sig = Inr info
    \<and> market info =
        (if marketIndex < length (authorizedMarkets poolInfo)
         then Some (authorizedMarkets poolInfo ! marketIndex) else None)"
  unfolding parse_returns [OF assms] by (simp add: at_index_def)

theorem parseCreateOrderInstruction_market_witness:
  "Numberu64_toNumber sample_deps (buf_slice 34 42 (sample_order_data 0 1 2 5)) = Inr 100
   \<and> Numberu16_toNumber sample_deps (buf_slice 42 44 (sample_order_data 0 1 2 5)) = Inr 50
   \<and> Numberu64_toNumber sample_deps (buf_slice 45 53 (sample_order_data 0 1 2 5)) = Inr 7
   \<and> Numberu16_toNumber sample_deps (buf_slice 70 72 (sample_order_data 0 1 2 5)) = Inr 5
   \<and> length (authorizedMarkets sample_poolInfo) = 2
   \<and> (\<exists>info. parseCreateOrderInstruction sample_deps (sample_order_data 0 1 2 5)
                 sample_poolInfo sample_sig = Inr info
         \<and> market info = None)"
proof -
  have a: "Numberu64_toNumber sample_deps (buf_slice 34 42 (sample_order_data 0 1 2 5)) = Inr 100"
    by (simp add: sample_eval)
  have b: "Numberu16_toNumber sample_deps (buf_slice 42 44 (sample_order_data 0 1 2 5)) = Inr 50"
    by (simp add: sample_eval)
  have c: "Numberu64_toNumber sample_deps (buf_slice 45 53 (sample_order_data 0 1 2 5)) = Inr 7"
    by (simp add: sample_eval)
  have e: "Numberu16_toNumber sample_deps (buf_slice 70 72 (sample_order_data 0 1 2 5)) = Inr 5"
    by (simp add: sample_eval)
  have len: "length (authorizedMarkets sample_poolInfo) = 2"
    by (simp add: sample_poolInfo_def)
  from parseCreateOrderInstruction_market [OF a b c e, of sample_poolInfo sample_sig]
  show ?thesis
    unfolding len using a b c e by simp
qed

subsection \<open>The sample pool\<close>

lemma sample_pool_length: "length sample_pool_data = 205"
  by (simp add: sample_pool_data_def key_of_def)

lemma sample_header:
  "PoolHeader_fromBuffer sample_deps (buf_slice 0 (PoolHeader_LEN sample_deps) sample_pool_data) =
     Inr \<lparr> hdr_serumProgramId = key_of 66, hdr_seed = key_of 5, hdr_signalProvider = key_of 4,
           hdr_status = 1, hdr_feeRatio = 50, hdr_feeCollectionPeriod = 86400,
           hdr_numberOfMarkets = 2 \<rparr>"
  by (simp add: sample_deps_def sample_pool_data_def key_of_def buf_slice_def nth_append)

lemma sample_regions:
  "buf_slice 109 173 sample_pool_data = key_of 12 @ key_of 13"
  "slice_from 173 sample_pool_data = key_of 1"
  by (simp_all add: sample_pool_data_def key_of_def buf_slice_def slice_from_def)

lemma sample_markets:
  "unpack_markets (key_of 12 @ key_of 13) 2 = Inr [key_of 12, key_of 13]"
  by (simp add: numeral_2_eq_2 PUBKEY_LENGTH_def key_of_def)

lemma sample_assets:
  "unpack_assets sample_deps (key_of 1) = Inr [\<lparr> mintAddress = key_of 1 \<rparr>]"
  by (simp add: unpack_assets_def sample_deps_def key_of_def)

lemma sample_keys:
  "createProgramAddress sample_deps [key_of 5] (BONFIDABOT_PROGRAM_ID sample_deps) = Inr (key_of 6)"
  "createProgramAddress sample_deps [key_of 5, [1]] (BONFIDABOT_PROGRAM_ID sample_deps) = Inr (key_of 7)"
  by (simp_all add: sample_deps_def key_of_def)

lemma sample_account: "getAccountInfo sample_conn (key_of 6) = Inr (Some sample_pool_data)"
  by (simp add: sample_conn_def)

lemma sample_fetch: "fetchPoolInfo sample_deps sample_conn (key_of 5) = Inr sample_poolInfo"
proof -
  have len: "PoolHeader_LEN sample_deps = 109" by (simp add: sample_deps_def)
  show ?thesis
    unfolding fetchPoolInfo_def
    by (simp add: sample_keys sample_account sample_header)
       (simp add: len PUBKEY_LENGTH_def sample_regions sample_markets sample_assets sample_poolInfo_def)
qed

lemma sample_market_records:
  "map (market_record sample_deps sample_pool_data) [0..<2] = [key_of 12, key_of 13]"
  by (simp add: numeral_2_eq_2 market_record_def sample_deps_def sample_pool_data_def key_of_def
      buf_slice_def)

lemma sample_accounts:
  "getProgramAccounts sample_conn (BONFIDABOT_PROGRAM_ID sample_deps) =
     Inr [sample_pool_data, replicate 40 0, sample_other_pool]"
  by (simp add: sample_conn_def sample_deps_def)

subsection \<open>Pool seeds by signal provider\<close>

lemma poolSeedsLoop_filter:
  "poolSeedsLoop d key accounts acc =
     acc @ map (buf_slice 32 64)
       (filter (\<lambda>a. PoolHeader_LEN d \<le> length a \<and> (key = None \<or> Some (buf_slice 64 96 a) = key))
          accounts)"
  by (induction accounts arbitrary: acc) auto

text \<open>
  C7. Given a signal-provider key, the seeds returned are exactly bytes 32--64 of the
  program accounts that have at least the header length and whose bytes 64--96 equal the
  key, in the order of the response; given no key, bytes 32--64 of all program accounts of
  at least the header length. Shorter accounts are left out in both cases. The header
  covers the three 32-byte fields, hence the first premise.
\<close>

theorem getPoolsSeedsBySigProvider_exact:
  assumes "96 \<le> PoolHeader_LEN d"
    and "getProgramAccounts conn (BONFIDABOT_PROGRAM_ID d) = Inr accounts"
  shows "getPoolsSeedsBySigProvider d conn (Some key) =
           Inr (map (buf_slice 32 64)
                  (filter (\<lambda>a. PoolHeader_LEN d \<le> length a \<and> buf_slice 64 96 a = key) accounts))
       \<and> getPoolsSeedsBySigProvider d conn None =
           Inr (map (buf_slice 32 64) (filter (\<lambda>a. PoolHeader_LEN d \<le> length a) accounts))"
  using assms(2) by (simp add: getPoolsSeedsBySigProvider_def poolSeedsLoop_filter)

theorem getPoolsSeedsBySigProvider_exact_witness:
  "96 \<le> PoolHeader_LEN sample_deps
   \<and> getProgramAccounts sample_conn (BONFIDABOT_PROGRAM_ID sample_deps) =
       Inr [sample_pool_data, replicate 40 0, sample_other_pool]
   \<and> getPoolsSeedsBySigProvider sample_deps sample_conn (Some (key_of 4)) = Inr [key_of 5]
   \<and> getPoolsSeedsBySigProvider sample_deps sample_conn None = Inr [key_of 5, key_of 55]"
proof -
  have len: "96 \<le> PoolHeader_LEN sample_deps"
    by (simp add: sample_deps_def)
  have L: "PoolHeader_LEN sample_deps = 109"
    by (simp add: sample_deps_def)
  have fields:
    "length sample_pool_data = 205" "length sample_other_pool = 109"
    "buf_slice 64 96 sample_pool_data = key_of 4" "buf_slice 64 96 sample_other_pool = key_of 44"
    "buf_slice 32 64 sample_pool_data = key_of 5" "buf_slice 32 64 sample_other_pool = key_of 55"
    by (simp_all add: sample_pool_data_def sample_other_pool_def key_of_def buf_slice_def)
  from getPoolsSeedsBySigProvider_exact [OF len sample_accounts, of "key_of 4"]
  show ?thesis
    using len sample_accounts by (simp add: L fields)
qed

subsection \<open>fetchPoolInfo\<close>

text \<open>
  C8, as stated: fetchPoolInfo fails with the pool-unavailable error whenever no account
  exists at the address derived from the seed. It does not when the derivation of the
  pool-token mint key, which the source runs before it looks the account up, raises: the
  call then fails with that error.
\<close>

theorem fetchPoolInfo_mint_derivation_first:
  "createProgramAddress sample_deps_mint_rejected [key_of 9]
     (BONFIDABOT_PROGRAM_ID sample_deps_mint_rejected) = Inr (key_of 10)
   \<and> getAccountInfo sample_conn (key_of 10) = Inr None
   \<and> fetchPoolInfo sample_deps_mint_rejected sample_conn (key_of 9) =
       Inl (LibraryError ''Invalid seeds, address must fall off the curve'')"
  by (simp add: fetchPoolInfo_def sample_deps_mint_rejected_def sample_deps_def sample_conn_def
      key_of_def)

text \<open>
  C8, amended: when no account exists at the address derived from the seed, fetchPoolInfo
  returns no pool info, whole or partial; it fails with the pool-unavailable error if the
  derivation of the pool-token mint key succeeds, and with the error of that derivation
  otherwise.
\<close>

theorem fetchPoolInfo_unavailable:
  assumes "createProgramAddress d [pool_seed] (BONFIDABOT_PROGRAM_ID d) = Inr poolKey"
    and "getAccountInfo conn poolKey = Inr None"
  shows "(\<forall>info. fetchPoolInfo d conn pool_seed \<noteq> Inr info)
       \<and> (\<forall>poolMintKey.
             createProgramAddress d [pool_seed, [1]] (BONFIDABOT_PROGRAM_ID d) = Inr poolMintKey
             \<longrightarrow> fetchPoolInfo d conn pool_seed = Inl PoolUnavailable)
       \<and> (\<forall>e. createProgramAddress d [pool_seed, [1]] (BONFIDABOT_PROGRAM_ID d) = Inl e
             \<longrightarrow> fetchPoolInfo d conn pool_seed = Inl e)"
  using assms
  by (cases "createProgramAddress d [pool_seed, [1]] (BONFIDABOT_PROGRAM_ID d)")
     (simp_all add: fetchPoolInfo_def)

theorem fetchPoolInfo_unavailable_witness:
  "createProgramAddress sample_deps [key_of 9] (BONFIDABOT_PROGRAM_ID sample_deps) = Inr (key_of 10)
   \<and> getAccountInfo sample_conn (key_of 10) = Inr None
   \<and> createProgramAddress sample_deps [key_of 9, [1]] (BONFIDABOT_PROGRAM_ID sample_deps)
       = Inr (key_of 11)
   \<and> fetchPoolInfo sample_deps sample_conn (key_of 9) = Inl PoolUnavailable"
proof -
  have a: "createProgramAddress sample_deps [key_of 9] (BONFIDABOT_PROGRAM_ID sample_deps)
      = Inr (key_of 10)"
    by (simp add: sample_deps_def key_of_def)
  have b: "createProgramAddress sample_deps [key_of 9, [1]] (BONFIDABOT_PROGRAM_ID sample_deps)
      = Inr (key_of 11)"
    by (simp add: sample_deps_def key_of_def)
  have c: "getAccountInfo sample_conn (key_of 10) = Inr None"
    by (simp add: sample_conn_def)
  from fetchPoolInfo_unavailable [OF a c] b
  have "fetchPoolInfo sample_deps sample_conn (key_of 9) = Inl PoolUnavailable"
    by blast
  with a b c show ?thesis
    by blast
qed

lemma buf_slice_drop: "buf_slice a b (drop c xs) = buf_slice (a + c) (b + c) xs"
  by (simp add: buf_slice_def take_drop add.commute)

lemma buf_slice_buf_slice:
  "b + c \<le> e \<Longrightarrow> buf_slice a b (buf_slice c e xs) = buf_slice (a + c) (b + c) xs"
  by (simp add: buf_slice_def take_drop add.commute min_def)

lemma map_upt_Suc_shift: "map f [0..<Suc n] = f 0 # map (\<lambda>i. f (Suc i)) [0..<n]"
  by (simp add: upt_conv_Cons map_Suc_upt [symmetric] del: upt_Suc)

lemma unpack_markets_records:
  "n * 32 \<le> length input \<Longrightarrow>
   unpack_markets input n = Inr (map (\<lambda>i. buf_slice (i * 32) ((i + 1) * 32) input) [0..<n])"
proof (induction n arbitrary: input)
  case 0
  then show ?case by simp
next
  case (Suc n)
  then have "n * 32 \<le> length (drop 32 input)" by simp
  from Suc.IH [OF this] Suc.prems show ?case
    by (simp add: PUBKEY_LENGTH_def map_upt_Suc_shift buf_slice_drop del: upt_Suc)
       (simp add: buf_slice_def add.commute)
qed

lemma unpack_records_records:
  "\<forall>j<k. PoolAsset_fromBuffer d
      (buf_slice (j * PoolAsset_LEN d) ((j + 1) * PoolAsset_LEN d) input) = Inr (a j) \<Longrightarrow>
   unpack_records d input k = Inr (map a [0..<k])"
proof (induction k arbitrary: input a)
  case 0
  then show ?case by simp
next
  case (Suc k)
  have first: "PoolAsset_fromBuffer d (take (PoolAsset_LEN d) input) = Inr (a 0)"
    using Suc.prems [rule_format, of 0] by (simp add: buf_slice_def)
  have rest: "\<forall>j<k. PoolAsset_fromBuffer d
      (buf_slice (j * PoolAsset_LEN d) ((j + 1) * PoolAsset_LEN d) (drop (PoolAsset_LEN d) input))
        = Inr (a (Suc j))"
    using Suc.prems by (auto simp: buf_slice_drop add.commute)
  from Suc.IH [OF rest] first show ?case
    by (simp add: map_upt_Suc_shift del: upt_Suc)
qed

text \<open>
  C9. For a well-formed pool account (the header decodes, and after it come
  \<open>numberOfMarkets\<close> addresses of 32 bytes and then \<open>k\<close> asset records that decode),
  fetchPoolInfo returns a pool info whose market list is the list of the 32-byte records
  from the end of the header, in their order, and whose asset mint list is the list of the
  mints of the asset records after the markets, in their order.
\<close>

theorem fetchPoolInfo_preserves_order:
  assumes "createProgramAddress d [pool_seed] (BONFIDABOT_PROGRAM_ID d) = Inr poolKey"
    and "createProgramAddress d [pool_seed, [1]] (BONFIDABOT_PROGRAM_ID d) = Inr poolMintKey"
    and "getAccountInfo conn poolKey = Inr (Some poolData)"
    and "PoolHeader_fromBuffer d (buf_slice 0 (PoolHeader_LEN d) poolData) = Inr h"
    and "0 < PoolAsset_LEN d"
    and "length poolData = PoolHeader_LEN d + hdr_numberOfMarkets h * 32 + k * PoolAsset_LEN d"
    and "\<forall>j<k. PoolAsset_fromBuffer d (asset_record d (hdr_numberOfMarkets h) poolData j) = Inr (a j)"
  shows "\<exists>info. fetchPoolInfo d conn pool_seed = Inr info
       \<and> authorizedMarkets info = map (market_record d poolData) [0..<hdr_numberOfMarkets h]
       \<and> assetMintkeys info = map (\<lambda>j. mintAddress (a j)) [0..<k]"
proof -
  let ?L = "PoolHeader_LEN d" and ?n = "hdr_numberOfMarkets h" and ?A = "PoolAsset_LEN d"
  let ?mk = "buf_slice ?L (?L + ?n * PUBKEY_LENGTH) poolData"
  let ?as = "slice_from (?L + ?n * PUBKEY_LENGTH) poolData"
  have len_mk: "length ?mk = ?n * 32"
    using assms(6) by (simp add: buf_slice_def PUBKEY_LENGTH_def)
  have "unpack_markets ?mk ?n = Inr (map (\<lambda>i. buf_slice (i * 32) ((i + 1) * 32) ?mk) [0..<?n])"
    by (rule unpack_markets_records) (simp add: len_mk)
  also have "map (\<lambda>i. buf_slice (i * 32) ((i + 1) * 32) ?mk) [0..<?n]
      = map (market_record d poolData) [0..<?n]"
  proof (rule map_cong [OF refl])
    fix i assume "i \<in> set [0..<?n]"
    then have "(i + 1) * 32 + ?L \<le> ?L + ?n * PUBKEY_LENGTH"
      by (simp add: PUBKEY_LENGTH_def)
    then show "buf_slice (i * 32) ((i + 1) * 32) ?mk = market_record d poolData i"
      by (simp add: buf_slice_buf_slice market_record_def add.commute)
  qed
  finally have markets: "unpack_markets ?mk ?n = Inr (map (market_record d poolData) [0..<?n])" .
  have len_as: "length ?as = k * ?A"
    using assms(6) by (simp add: slice_from_def PUBKEY_LENGTH_def)
  have recs: "\<forall>j<k. PoolAsset_fromBuffer d (buf_slice (j * ?A) ((j + 1) * ?A) ?as) = Inr (a j)"
    using assms(7)
    by (simp add: slice_from_def buf_slice_drop asset_record_def PUBKEY_LENGTH_def add.commute add.left_commute)
  have assets: "unpack_assets d ?as = Inr (map a [0..<k])"
    using assms(5) unpack_records_records [OF recs]
    by (simp add: unpack_assets_def len_as)
  show ?thesis
    using assms(1-4) markets assets
    by (simp add: fetchPoolInfo_def comp_def)
qed

theorem fetchPoolInfo_preserves_order_witness:
  "length sample_pool_data = 109 + 2 * 32 + 1 * 32
   \<and> (\<exists>info. fetchPoolInfo sample_deps sample_conn (key_of 5) = Inr info
         \<and> authorizedMarkets info = [key_of 12, key_of 13]
         \<and> assetMintkeys info = [key_of 1])"
proof -
  let ?h = "\<lparr> hdr_serumProgramId = key_of 66, hdr_seed = key_of 5, hdr_signalProvider = key_of 4,
           hdr_status = 1, hdr_feeRatio = 50, hdr_feeCollectionPeriod = 86400,
           hdr_numberOfMarkets = 2 \<rparr>"
  let ?a = "\<lambda>j :: nat. \<lparr> mintAddress = key_of 1 \<rparr>"
  have pos: "0 < PoolAsset_LEN sample_deps"
    by (simp add: sample_deps_def)
  have len: "length sample_pool_data =
      PoolHeader_LEN sample_deps + hdr_numberOfMarkets ?h * 32 + 1 * PoolAsset_LEN sample_deps"
    by (simp add: sample_pool_length sample_deps_def)
  have recs: "\<forall>j<1. PoolAsset_fromBuffer sample_deps
      (asset_record sample_deps (hdr_numberOfMarkets ?h) sample_pool_data j) = Inr (?a j)"
    by (simp add: asset_record_def sample_deps_def sample_pool_data_def key_of_def buf_slice_def)
  from fetchPoolInfo_preserves_order [OF sample_keys sample_account sample_header pos len recs]
  show ?thesis
    by (simp add: sample_market_records sample_pool_length)
qed

subsection \<open>Order history\<close>

lemma filter_defined_simps [simp]:
  "filter_defined [] = []"
  "filter_defined (None # xs) = filter_defined xs"
  "filter_defined (Some x # xs) = x # filter_defined xs"
  by (simp_all add: filter_defined_def List.map_filter_simps)

lemma parseInstructions_parsed:
  "parseInstructions d poolInfo sig is = Inr xs \<Longrightarrow>
   list_all2 (\<lambda>i info. parseCreateOrderInstruction d (data i) poolInfo sig = Inr info)
     (filter (isCreateOrder d) is) (filter_defined xs)"
proof (induction "is" arbitrary: xs)
  case Nil
  then show ?case by simp
next
  case (Cons i rest)
  then show ?case
    by (auto split: sum.splits if_splits)
qed

lemma promise_all_Inr: "promise_all ps = Inr xs \<Longrightarrow> ps = map Inr xs"
  by (induction ps arbitrary: xs) (auto split: sum.splits)

lemma signature_results:
  "map (getPoolOrdersInfosFromSignature d conn poolInfo) sigs = map Inr results \<Longrightarrow>
   list_all2 (parsedAs d poolInfo) (qualifyingInstructions d conn sigs)
     (concat (filter_defined results))"
proof (induction sigs arbitrary: results)
  case Nil
  then show ?case by (simp add: qualifyingInstructions_def)
next
  case (Cons s sigs)
  then obtain r rs where results: "results = r # rs"
    and head: "getPoolOrdersInfosFromSignature d conn poolInfo s = Inr r"
    and tail: "map (getPoolOrdersInfosFromSignature d conn poolInfo) sigs = map Inr rs"
    by (cases results) auto
  have rest: "list_all2 (parsedAs d poolInfo) (qualifyingInstructions d conn sigs)
     (concat (filter_defined rs))"
    by (rule Cons.IH [OF tail])
  have split: "qualifyingInstructions d conn (s # sigs) =
      (case getConfirmedTransaction conn (signature s) of
         Inr (Some t) \<Rightarrow> map (Pair s) (filter (isCreateOrder d) (instructions t))
       | _ \<Rightarrow> []) @ qualifyingInstructions d conn sigs"
    by (simp add: qualifyingInstructions_def)
  show ?case
  proof (cases r)
    case None
    with head have "getConfirmedTransaction conn (signature s) = Inr None"
      by (auto simp: getPoolOrdersInfosFromSignature_def split: sum.splits option.splits)
    with rest show ?thesis by (simp add: split results None)
  next
    case (Some infos)
    with head obtain t xs where t: "getConfirmedTransaction conn (signature s) = Inr (Some t)"
      and xs: "parseInstructions d poolInfo s (instructions t) = Inr xs"
      and infos: "infos = filter_defined xs"
      by (auto simp: getPoolOrdersInfosFromSignature_def split: sum.splits option.splits)
    have "list_all2 (parsedAs d poolInfo) (map (Pair s) (filter (isCreateOrder d) (instructions t)))
        infos"
      using parseInstructions_parsed [OF xs]
      by (simp add: infos list_all2_map1 parsedAs_def)
    with rest show ?thesis
      by (simp add: split results Some t list_all2_appendI)
  qed
qed

lemma getPoolOrderInfos_result:
  assumes "fetchPoolInfo d conn pool_seed = Inr poolInfo"
    and "getConfirmedSignaturesForAddress2 conn (address poolInfo) = Inr sigs"
    and "getPoolOrderInfos d conn pool_seed n = Inr infos"
  shows "\<exists>all. list_all2 (parsedAs d poolInfo) (qualifyingInstructions d conn sigs) all
           \<and> infos = slice_to n all"
proof -
  from assms obtain results where
    all: "promise_all (map (getPoolOrdersInfosFromSignature d conn poolInfo) sigs) = Inr results"
    and infos: "infos = slice_to n (concat (filter_defined results))"
    by (auto simp: getPoolOrderInfos_def split: sum.splits)
  from signature_results [OF promise_all_Inr [OF all]] infos show ?thesis
    by blast
qed

lemma in_qualifyingInstructions:
  "(s, i) \<in> set (qualifyingInstructions d conn sigs) \<longleftrightarrow>
     s \<in> set sigs \<and> (\<exists>t. getConfirmedTransaction conn (signature s) = Inr (Some t)
        \<and> i \<in> set (instructions t) \<and> isCreateOrder d i)"
proof -
  have one: "\<And>s'. (s, i) \<in> set (case getConfirmedTransaction conn (signature s') of
        Inr (Some t) \<Rightarrow> map (Pair s') (filter (isCreateOrder d) (instructions t)) | _ \<Rightarrow> [])
      \<longleftrightarrow> s = s' \<and> (\<exists>t. getConfirmedTransaction conn (signature s) = Inr (Some t)
        \<and> i \<in> set (instructions t) \<and> isCreateOrder d i)"
  proof -
    fix s'
    show "?thesis s'"
    proof (cases "getConfirmedTransaction conn (signature s')")
      case (Inl e)
      then show ?thesis by auto
    next
      case (Inr r)
      then show ?thesis by (cases r) auto
    qed
  qed
  have "(s, i) \<in> set (qualifyingInstructions d conn sigs) \<longleftrightarrow>
      (\<exists>s'\<in>set sigs. (s, i) \<in> set (case getConfirmedTransaction conn (signature s') of
        Inr (Some t) \<Rightarrow> map (Pair s') (filter (isCreateOrder d) (instructions t)) | _ \<Rightarrow> []))"
    unfolding qualifyingInstructions_def by simp
  also have "\<dots> \<longleftrightarrow> s \<in> set sigs \<and> (\<exists>t. getConfirmedTransaction conn (signature s) = Inr (Some t)
        \<and> i \<in> set (instructions t) \<and> isCreateOrder d i)"
    unfolding one by blast
  finally show ?thesis .
qed

lemma slice_to_take: "\<exists>m. slice_to n xs = take m xs"
  by (auto simp: slice_to_def)

lemma sample_signatures:
  "getConfirmedSignaturesForAddress2 sample_conn (address sample_poolInfo) =
     Inr [sample_sig, \<lparr> signature = ''sig2'', slot = 41 \<rparr>, \<lparr> signature = ''sig3'', slot = 40 \<rparr>]"
  by (simp add: sample_conn_def sample_poolInfo_def)

lemma sample_orders_sig1:
  "getPoolOrdersInfosFromSignature sample_deps sample_conn sample_poolInfo sample_sig =
     Inr (Some [\<lparr> poolSeed = key_of 5, side = Some Bid, limitPrice = 100,
                  ratioOfPoolAssetsToTrade = 50, orderType = Some ImmediateOrCancel,
                  clientOrderId = 7, selfTradeBehavior = Some AbortTransaction,
                  market = Some (key_of 13), transactionSignature = ''sig1'',
                  transactionSlot = 42 \<rparr>])"
  by (simp add: getPoolOrdersInfosFromSignature_def sample_conn_def isCreateOrder_def sample_eval)

lemma sample_orders_sig2:
  "getPoolOrdersInfosFromSignature sample_deps sample_conn sample_poolInfo
     \<lparr> signature = ''sig2'', slot = 41 \<rparr> = Inr None"
  by (simp add: getPoolOrdersInfosFromSignature_def sample_conn_def)

lemma sample_orders_sig3:
  "getPoolOrdersInfosFromSignature sample_deps sample_conn sample_poolInfo
     \<lparr> signature = ''sig3'', slot = 40 \<rparr> =
     Inr (Some [\<lparr> poolSeed = key_of 5, side = Some Ask, limitPrice = 100,
                  ratioOfPoolAssetsToTrade = 50, orderType = Some PostOnly,
                  clientOrderId = 7, selfTradeBehavior = Some DecrementTake,
                  market = Some (key_of 12), transactionSignature = ''sig3'',
                  transactionSlot = 40 \<rparr>])"
  by (simp add: getPoolOrdersInfosFromSignature_def sample_conn_def isCreateOrder_def sample_eval)

lemma sample_getPoolOrderInfos:
  "0 \<le> n \<Longrightarrow> getPoolOrderInfos sample_deps sample_conn (key_of 5) n =
     Inr (take (nat n)
       [\<lparr> poolSeed = key_of 5, side = Some Bid, limitPrice = 100,
          ratioOfPoolAssetsToTrade = 50, orderType = Some ImmediateOrCancel,
          clientOrderId = 7, selfTradeBehavior = Some AbortTransaction,
          market = Some (key_of 13), transactionSignature = ''sig1'',
          transactionSlot = 42 \<rparr>,
        \<lparr> poolSeed = key_of 5, side = Some Ask, limitPrice = 100,
          ratioOfPoolAssetsToTrade = 50, orderType = Some PostOnly,
          clientOrderId = 7, selfTradeBehavior = Some DecrementTake,
          market = Some (key_of 12), transactionSignature = ''sig3'',
          transactionSlot = 40 \<rparr>])"
  by (simp add: getPoolOrderInfos_def sample_fetch sample_signatures sample_orders_sig1
      sample_orders_sig2 sample_orders_sig3 slice_to_def)

lemma sample_qualifying:
  "length (qualifyingInstructions sample_deps sample_conn
     [sample_sig, \<lparr> signature = ''sig2'', slot = 41 \<rparr>, \<lparr> signature = ''sig3'', slot = 40 \<rparr>]) = 2"
  by (simp add: qualifyingInstructions_def sample_conn_def sample_sig_def isCreateOrder_def
      sample_deps_def sample_order_data_def at_index_def)

text \<open>
  C5. Every entry that getPoolOrderInfos returns is the decoding of an instruction, of a
  transaction of the window, whose target program is the pool program and whose first
  data byte is 3; an instruction with another opcode or another program gives no entry.
\<close>

theorem getPoolOrderInfos_only_create_orders:
  assumes "fetchPoolInfo d conn pool_seed = Inr poolInfo"
    and "getConfirmedSignaturesForAddress2 conn (address poolInfo) = Inr sigs"
    and "getPoolOrderInfos d conn pool_seed n = Inr infos"
    and "info \<in> set infos"
  shows "\<exists>s t i. s \<in> set sigs \<and> getConfirmedTransaction conn (signature s) = Inr (Some t)
           \<and> i \<in> set (instructions t)
           \<and> programId i = BONFIDABOT_PROGRAM_ID d \<and> (\<exists>rest. data i = 3 # rest)
           \<and> parseCreateOrderInstruction d (data i) poolInfo s = Inr info"
proof -
  from getPoolOrderInfos_result [OF assms(1-3)] obtain all where
    rel: "list_all2 (parsedAs d poolInfo) (qualifyingInstructions d conn sigs) all"
    and infos: "infos = slice_to n all"
    by blast
  from slice_to_take [of n all] infos obtain m where "infos = take m all" by auto
  with assms(4) have "info \<in> set all" by (auto dest: in_set_takeD)
  then obtain j where j: "j < length all" "info = all ! j"
    by (auto simp: in_set_conv_nth)
  define si where "si = qualifyingInstructions d conn sigs ! j"
  have len: "length (qualifyingInstructions d conn sigs) = length all"
    using rel by (rule list_all2_lengthD)
  have si: "si \<in> set (qualifyingInstructions d conn sigs)"
    using j len by (simp add: si_def)
  have parsed: "parsedAs d poolInfo si info"
    using list_all2_nthD2 [OF rel j(1)] j(2) by (simp add: si_def)
  obtain s i' where si_eq: "si = (s, i')" by (cases si)
  from si have "s \<in> set sigs \<and> (\<exists>t. getConfirmedTransaction conn (signature s) = Inr (Some t)
      \<and> i' \<in> set (instructions t) \<and> isCreateOrder d i')"
    unfolding si_eq in_qualifyingInstructions .
  then obtain t where s: "s \<in> set sigs"
    and t: "getConfirmedTransaction conn (signature s) = Inr (Some t)"
    and mem: "i' \<in> set (instructions t)" and ok: "isCreateOrder d i'"
    by blast
  from ok have "programId i' = BONFIDABOT_PROGRAM_ID d" and "\<exists>rest. data i' = 3 # rest"
    by (auto simp: isCreateOrder_def at_index_def neq_Nil_conv split: if_splits)
  with s t mem parsed si_eq show ?thesis
    by (auto simp: parsedAs_def)
qed

theorem getPoolOrderInfos_only_create_orders_witness:
  "getPoolOrderInfos sample_deps sample_conn (key_of 5) 1 =
     Inr [\<lparr> poolSeed = key_of 5, side = Some Bid, limitPrice = 100,
            ratioOfPoolAssetsToTrade = 50, orderType = Some ImmediateOrCancel,
            clientOrderId = 7, selfTradeBehavior = Some AbortTransaction,
            market = Some (key_of 13), transactionSignature = ''sig1'',
            transactionSlot = 42 \<rparr>]
   \<and> (\<exists>s t i. getConfirmedTransaction sample_conn (signature s) = Inr (Some t)
         \<and> i \<in> set (instructions t)
         \<and> programId i = BONFIDABOT_PROGRAM_ID sample_deps \<and> (\<exists>rest. data i = 3 # rest)
         \<and> parseCreateOrderInstruction sample_deps (data i) sample_poolInfo s =
             Inr \<lparr> poolSeed = key_of 5, side = Some Bid, limitPrice = 100,
                   ratioOfPoolAssetsToTrade = 50, orderType = Some ImmediateOrCancel,
                   clientOrderId = 7, selfTradeBehavior = Some AbortTransaction,
                   market = Some (key_of 13), transactionSignature = ''sig1'',
                   transactionSlot = 42 \<rparr>)"
proof -
  let ?info = "\<lparr> poolSeed = key_of 5, side = Some Bid, limitPrice = 100,
            ratioOfPoolAssetsToTrade = 50, orderType = Some ImmediateOrCancel,
            clientOrderId = 7, selfTradeBehavior = Some AbortTransaction,
            market = Some (key_of 13), transactionSignature = ''sig1'',
            transactionSlot = 42 \<rparr>"
  have run: "getPoolOrderInfos sample_deps sample_conn (key_of 5) 1 = Inr [?info]"
    using sample_getPoolOrderInfos [of 1] by simp
  have mem: "?info \<in> set [?info]"
    by simp
  from getPoolOrderInfos_only_create_orders [OF sample_fetch sample_signatures run mem] run
  show ?thesis
    by blast
qed

text \<open>
  C6. For every \<open>n\<close> that is not negative, getPoolOrderInfos returns at most \<open>n\<close>
  entries, and fewer than \<open>n\<close> only when the window holds fewer than \<open>n\<close> qualifying
  instructions: the number of entries is the smaller of \<open>n\<close> and their number.
\<close>

theorem getPoolOrderInfos_length:
  assumes "0 \<le> n"
    and "fetchPoolInfo d conn pool_seed = Inr poolInfo"
    and "getConfirmedSignaturesForAddress2 conn (address poolInfo) = Inr sigs"
    and "getPoolOrderInfos d conn pool_seed n = Inr infos"
  shows "length infos \<le> nat n
       \<and> length infos = min (nat n) (length (qualifyingInstructions d conn sigs))"
proof -
  from getPoolOrderInfos_result [OF assms(2-4)] obtain all where
    rel: "list_all2 (parsedAs d poolInfo) (qualifyingInstructions d conn sigs) all"
    and infos: "infos = slice_to n all"
    by blast
  from rel have "length all = length (qualifyingInstructions d conn sigs)"
    by (simp add: list_all2_lengthD)
  with infos assms(1) show ?thesis
    by (simp add: slice_to_def min_def)
qed

theorem getPoolOrderInfos_length_witness:
  "(0 :: int) \<le> 5
   \<and> length (qualifyingInstructions sample_deps sample_conn
        [sample_sig, \<lparr> signature = ''sig2'', slot = 41 \<rparr>, \<lparr> signature = ''sig3'', slot = 40 \<rparr>])
       = 2
   \<and> (\<exists>infos. getPoolOrderInfos sample_deps sample_conn (key_of 5) 5 = Inr infos
         \<and> length infos = 2)"
proof -
  have n: "(0 :: int) \<le> 5"
    by simp
  obtain infos where run: "getPoolOrderInfos sample_deps sample_conn (key_of 5) 5 = Inr infos"
    using sample_getPoolOrderInfos [of 5] by simp
  from getPoolOrderInfos_length [OF n sample_fetch sample_signatures run] run
  show ?thesis
    by (simp add: sample_qualifying)
qed

end
